theory Spec2Isabelle
  imports Main "HOL-Library.Word"
begin

unbundle bit_operations_syntax

section \<open>Platform types and constants\<close>

text \<open>
  The functions of \<^verbatim>\<open>WindowsFilesystemFunctions.cpp\<close> are sequences of calls into the
  Win32 security API. The API is not part of the repository, so it is modelled here as
  a small reference backend over an explicit state \<open>world\<close>: the security descriptors
  of the file objects, the account database, the privileges of the process token, the
  heap of buffers the API hands out, and a fault plan that lets every entry point fail
  with any error code. The three public functions are then translated statement by
  statement on top of it.
\<close>

type_synonym DWORD = "32 word"
type_synonym BOOL = "32 word"

text \<open>
  \<^verbatim>\<open>QString\<close> and \<^verbatim>\<open>wchar_t\<close> buffers are lists of code units. A null \<^verbatim>\<open>QString()\<close>
  and an empty one compare equal in Qt; both are the empty list.
\<close>

type_synonym QString = string

abbreviation NUL :: char where "NUL \<equiv> CHR 0x00"

abbreviation FALSE :: BOOL where "FALSE \<equiv> 0"
abbreviation TRUE :: BOOL where "TRUE \<equiv> 1"

text \<open>System error codes (winerror.h).\<close>

abbreviation ERROR_SUCCESS :: DWORD where "ERROR_SUCCESS \<equiv> 0"
abbreviation ERROR_FILE_NOT_FOUND :: DWORD where "ERROR_FILE_NOT_FOUND \<equiv> 2"
abbreviation ERROR_ACCESS_DENIED :: DWORD where "ERROR_ACCESS_DENIED \<equiv> 5"
abbreviation ERROR_INVALID_PARAMETER :: DWORD where "ERROR_INVALID_PARAMETER \<equiv> 87"

text \<open>\<^verbatim>\<open>SECURITY_INFORMATION\<close> flags and generic access rights (winnt.h).\<close>

abbreviation OWNER_SECURITY_INFORMATION :: DWORD where "OWNER_SECURITY_INFORMATION \<equiv> 0x00000001"
abbreviation DACL_SECURITY_INFORMATION :: DWORD where "DACL_SECURITY_INFORMATION \<equiv> 0x00000004"

abbreviation GENERIC_READ :: DWORD where "GENERIC_READ \<equiv> 0x80000000"
abbreviation GENERIC_WRITE :: DWORD where "GENERIC_WRITE \<equiv> 0x40000000"
abbreviation GENERIC_EXECUTE :: DWORD where "GENERIC_EXECUTE \<equiv> 0x20000000"
abbreviation GENERIC_ALL :: DWORD where "GENERIC_ALL \<equiv> 0x10000000"

abbreviation NO_INHERITANCE :: DWORD where "NO_INHERITANCE \<equiv> 0"

abbreviation SECURITY_NT_AUTHORITY :: nat where "SECURITY_NT_AUTHORITY \<equiv> 5"
abbreviation SECURITY_BUILTIN_DOMAIN_RID :: DWORD where "SECURITY_BUILTIN_DOMAIN_RID \<equiv> 0x20"
abbreviation DOMAIN_ALIAS_RID_ADMINS :: DWORD where "DOMAIN_ALIAS_RID_ADMINS \<equiv> 0x220"

abbreviation SECURITY_MAX_SID_SIZE :: nat where "SECURITY_MAX_SID_SIZE \<equiv> 68"
abbreviation MAX_PATH :: nat where "MAX_PATH \<equiv> 260"

abbreviation SE_TAKE_OWNERSHIP_NAME :: string where
  "SE_TAKE_OWNERSHIP_NAME \<equiv> ''SeTakeOwnershipPrivilege''"

text \<open>The group bits of \<^verbatim>\<open>QFile::Permissions\<close> (qfiledevice.h).\<close>

type_synonym Permissions = "32 word"

abbreviation ReadGroup :: Permissions where "ReadGroup \<equiv> 0x0040"
abbreviation WriteGroup :: Permissions where "WriteGroup \<equiv> 0x0020"
abbreviation ExeGroup :: Permissions where "ExeGroup \<equiv> 0x0010"


section \<open>Data model\<close>

text \<open>A security identifier: identifier authority and sub-authorities.\<close>

datatype SID = SID (authority: nat) (sub_authorities: "DWORD list")

text \<open>
  A \<^verbatim>\<open>PSID\<close> is a pointer: null, the address of a heap buffer that holds a SID (a SID
  buffer, or the owner field inside a security descriptor buffer), or the address of a
  buffer of the caller (the \<^verbatim>\<open>char ownerGroupSID[SECURITY_MAX_SID_SIZE]\<close> array), given
  by its content, \<open>None\<close> while it holds no valid SID.
\<close>

datatype PSID = PSID_null | PSID_heap nat | PSID_local "SID option"

datatype ACCESS_MODE =
  NOT_USED_ACCESS | GRANT_ACCESS | SET_ACCESS | DENY_ACCESS | REVOKE_ACCESS

datatype TRUSTEE_FORM = TRUSTEE_IS_SID | TRUSTEE_IS_NAME

datatype TRUSTEE_TYPE = TRUSTEE_IS_UNKNOWN | TRUSTEE_IS_USER | TRUSTEE_IS_GROUP

record TRUSTEE =
  TrusteeForm :: TRUSTEE_FORM
  TrusteeType :: TRUSTEE_TYPE
  ptstrName :: PSID

record EXPLICIT_ACCESS =
  grfAccessPermissions :: DWORD
  grfAccessMode :: ACCESS_MODE
  grfInheritance :: DWORD
  Trustee :: TRUSTEE

text \<open>An entry of an access control list, as the system stores it: the SID by value.\<close>

datatype ACE_TYPE = ACCESS_ALLOWED_ACE | ACCESS_DENIED_ACE

record ACE =
  ace_type :: ACE_TYPE
  ace_sid :: SID
  ace_mask :: DWORD
  ace_flags :: DWORD

text \<open>The security descriptor of a file object: its owner and its DACL (\<open>None\<close>: no DACL).\<close>

record security_descriptor =
  sd_owner :: SID
  sd_dacl :: "ACE list option"

record account =
  acc_name :: string
  acc_domain :: string
  acc_sid :: SID

text \<open>What a buffer handed out by the API holds.\<close>

datatype buffer =
  SD_buffer SID
| SID_buffer SID
| ACL_buffer "ACE list"

datatype api =
  API_GetNamedSecurityInfo
| API_LookupAccountSid
| API_LookupAccountName
| API_SetNamedSecurityInfo
| API_AllocateAndInitializeSid
| API_SetEntriesInAcl

text \<open>The calls a function issues, in order.\<close>

datatype call =
  Call_GetNamedSecurityInfo string DWORD
| Call_LookupAccountSid PSID nat nat
| Call_LookupAccountName string nat nat
| Call_enablePrivilege string bool
| Call_SetNamedSecurityInfo string DWORD PSID "nat option"
| Call_AllocateAndInitializeSid nat nat "DWORD list"
| Call_SetEntriesInAcl nat "EXPLICIT_ACCESS list" "nat option"
| Call_FreeSid PSID
| Call_LocalFree "nat option"

text \<open>A diagnostic line is the sequence of items streamed into \<^verbatim>\<open>qCritical()\<close>.\<close>

datatype log_item = Text string | Code DWORD

text \<open>
  \<open>faults w f = 0\<close>: the entry point \<open>f\<close> runs normally; \<open>faults w f = e\<close> with
  \<open>e \<noteq> 0\<close>: it fails with error code \<open>e\<close> and changes nothing (a denial by the
  caller's access rights, memory exhaustion, ...). A pointer to heap memory is the
  address of its buffer; \<open>next_addr\<close> is the next address the allocator hands out.
\<close>

record world =
  objects :: "string \<rightharpoonup> security_descriptor"
  accounts :: "account list"
  privileges :: "string set"
  heap :: "nat \<rightharpoonup> buffer"
  next_addr :: nat
  faults :: "api \<Rightarrow> DWORD"
  diagnostics :: "log_item list list"
  calls :: "call list"


section \<open>The reference backend\<close>

definition record_call :: "call \<Rightarrow> world \<Rightarrow> world" where
  "record_call c w = w\<lparr>calls := calls w @ [c]\<rparr>"

definition qCritical :: "log_item list \<Rightarrow> world \<Rightarrow> world" where
  "qCritical line w = w\<lparr>diagnostics := diagnostics w @ [line]\<rparr>"

definition allocate :: "buffer \<Rightarrow> world \<Rightarrow> nat \<times> world" where
  "allocate b w =
     (next_addr w, w\<lparr>heap := (heap w)(next_addr w \<mapsto> b), next_addr := Suc (next_addr w)\<rparr>)"

text \<open>The SID a pointer refers to, \<open>None\<close> when it is null, dangling or not a SID.\<close>

fun sid_at :: "(nat \<rightharpoonup> buffer) \<Rightarrow> PSID \<Rightarrow> SID option" where
  "sid_at h PSID_null = None"
| "sid_at h (PSID_local s) = s"
| "sid_at h (PSID_heap a) =
     (case h a of
        Some (SD_buffer s) \<Rightarrow> Some s
      | Some (SID_buffer s) \<Rightarrow> Some s
      | _ \<Rightarrow> None)"

fun acl_at :: "(nat \<rightharpoonup> buffer) \<Rightarrow> nat option \<Rightarrow> ACE list option" where
  "acl_at h None = None"
| "acl_at h (Some a) = (case h a of Some (ACL_buffer es) \<Rightarrow> Some es | _ \<Rightarrow> None)"

text \<open>
  \<^verbatim>\<open>GetNamedSecurityInfo\<close>: copies the requested parts of the object's security
  descriptor into a buffer it allocates, which the caller has to release with
  \<^verbatim>\<open>LocalFree\<close>; the owner pointer it returns points into that buffer. Both output
  pointers are given as the caller initialised them (null) when the call fails.
\<close>

definition GetNamedSecurityInfo ::
  "string \<Rightarrow> DWORD \<Rightarrow> world \<Rightarrow> DWORD \<times> PSID \<times> nat option \<times> world" where
  "GetNamedSecurityInfo pObjectName SecurityInfo w =
     (let w0 = record_call (Call_GetNamedSecurityInfo pObjectName SecurityInfo) w in
      if faults w API_GetNamedSecurityInfo \<noteq> 0
      then (faults w API_GetNamedSecurityInfo, PSID_null, None, w0)
      else case objects w pObjectName of
        None \<Rightarrow> (ERROR_FILE_NOT_FOUND, PSID_null, None, w0)
      | Some sd \<Rightarrow>
          (case allocate (SD_buffer (sd_owner sd)) w0 of (a, w1) \<Rightarrow>
             (ERROR_SUCCESS,
              if SecurityInfo AND OWNER_SECURITY_INFORMATION \<noteq> 0 then PSID_heap a else PSID_null,
              Some a, w1)))"

definition account_of_sid :: "account list \<Rightarrow> SID \<Rightarrow> account option" where
  "account_of_sid as s = find (\<lambda>a. acc_sid a = s) as"

definition account_of_name :: "account list \<Rightarrow> string \<Rightarrow> account option" where
  "account_of_name as n = find (\<lambda>a. acc_name a = n) as"

text \<open>
  \<^verbatim>\<open>LookupAccountSid\<close> returns a \<^verbatim>\<open>BOOL\<close>: nonzero on success, \<^verbatim>\<open>FALSE\<close> on failure.
  It fails when the SID is unknown, and when one of the two buffers is too small for
  the name and the terminating null (then nothing is written). On success the name and
  its terminator are written at the start of the name buffer.
\<close>

definition LookupAccountSid ::
  "PSID \<Rightarrow> string \<Rightarrow> nat \<Rightarrow> nat \<Rightarrow> world \<Rightarrow> BOOL \<times> string \<times> world" where
  "LookupAccountSid lpSid Name cchName cchReferencedDomainName w =
     (let w0 = record_call (Call_LookupAccountSid lpSid cchName cchReferencedDomainName) w in
      if faults w API_LookupAccountSid \<noteq> 0 then (FALSE, Name, w0)
      else case sid_at (heap w) lpSid of
        None \<Rightarrow> (FALSE, Name, w0)
      | Some s \<Rightarrow>
          (case account_of_sid (accounts w) s of
             None \<Rightarrow> (FALSE, Name, w0)
           | Some a \<Rightarrow>
               if cchName < Suc (length (acc_name a))
                  \<or> cchReferencedDomainName < Suc (length (acc_domain a))
               then (FALSE, Name, w0)
               else (TRUE, acc_name a @ NUL # drop (Suc (length (acc_name a))) Name, w0)))"

text \<open>
  \<^verbatim>\<open>LookupAccountName\<close>: \<^verbatim>\<open>FALSE\<close> when no account has the name or a buffer is too
  small; otherwise the SID is written into the caller's SID buffer, whose content
  before and after the call is the \<open>SID option\<close>.
\<close>

definition LookupAccountName ::
  "string \<Rightarrow> SID option \<Rightarrow> nat \<Rightarrow> nat \<Rightarrow> world \<Rightarrow> BOOL \<times> SID option \<times> world" where
  "LookupAccountName lpAccountName Sid cbSid cchReferencedDomainName w =
     (let w0 = record_call (Call_LookupAccountName lpAccountName cbSid cchReferencedDomainName) w in
      if faults w API_LookupAccountName \<noteq> 0 then (FALSE, Sid, w0)
      else case account_of_name (accounts w) lpAccountName of
        None \<Rightarrow> (FALSE, Sid, w0)
      | Some a \<Rightarrow>
          if cbSid < 8 + 4 * length (sub_authorities (acc_sid a))
             \<or> cchReferencedDomainName < Suc (length (acc_domain a))
          then (FALSE, Sid, w0)
          else (TRUE, Some (acc_sid a), w0))"

text \<open>
  \<^verbatim>\<open>SetNamedSecurityInfo\<close> replaces the parts of the object's security descriptor that
  \<open>SecurityInfo\<close> selects and leaves the others as they are; the DACL is replaced as
  a whole (a null pointer gives the object no DACL).
\<close>

definition SetNamedSecurityInfo ::
  "string \<Rightarrow> DWORD \<Rightarrow> PSID \<Rightarrow> nat option \<Rightarrow> world \<Rightarrow> DWORD \<times> world" where
  "SetNamedSecurityInfo pObjectName SecurityInfo psidOwner pDacl w =
     (let w0 = record_call (Call_SetNamedSecurityInfo pObjectName SecurityInfo psidOwner pDacl) w in
      if faults w API_SetNamedSecurityInfo \<noteq> 0 then (faults w API_SetNamedSecurityInfo, w0)
      else case objects w pObjectName of
        None \<Rightarrow> (ERROR_FILE_NOT_FOUND, w0)
      | Some sd \<Rightarrow>
          if SecurityInfo AND OWNER_SECURITY_INFORMATION \<noteq> 0 \<and> sid_at (heap w) psidOwner = None
          then (ERROR_INVALID_PARAMETER, w0)
          else if SecurityInfo AND DACL_SECURITY_INFORMATION \<noteq> 0 \<and> pDacl \<noteq> None
                  \<and> acl_at (heap w) pDacl = None
          then (ERROR_INVALID_PARAMETER, w0)
          else
            (let sd1 = (if SecurityInfo AND OWNER_SECURITY_INFORMATION \<noteq> 0
                        then sd\<lparr>sd_owner := the (sid_at (heap w) psidOwner)\<rparr> else sd);
                 sd2 = (if SecurityInfo AND DACL_SECURITY_INFORMATION \<noteq> 0
                        then sd1\<lparr>sd_dacl := acl_at (heap w) pDacl\<rparr> else sd1)
             in (ERROR_SUCCESS, w0\<lparr>objects := (objects w)(pObjectName \<mapsto> sd2)\<rparr>)))"

text \<open>
  \<^verbatim>\<open>AllocateAndInitializeSid\<close>: a \<^verbatim>\<open>BOOL\<close>; on success a new SID buffer with the first
  \<open>nSubAuthorityCount\<close> of the eight sub-authority arguments, to be released with
  \<^verbatim>\<open>FreeSid\<close>.
\<close>

definition AllocateAndInitializeSid ::
  "nat \<Rightarrow> nat \<Rightarrow> DWORD list \<Rightarrow> world \<Rightarrow> BOOL \<times> PSID \<times> world" where
  "AllocateAndInitializeSid pIdentifierAuthority nSubAuthorityCount subAuthorities w =
     (let w0 = record_call
                 (Call_AllocateAndInitializeSid pIdentifierAuthority nSubAuthorityCount subAuthorities) w in
      if faults w API_AllocateAndInitializeSid \<noteq> 0 then (FALSE, PSID_null, w0)
      else if nSubAuthorityCount = 0 \<or> 8 < nSubAuthorityCount then (FALSE, PSID_null, w0)
      else case allocate (SID_buffer (SID pIdentifierAuthority (take nSubAuthorityCount subAuthorities))) w0
           of (a, w1) \<Rightarrow> (TRUE, PSID_heap a, w1))"

text \<open>
  The entry of the new list for one \<^verbatim>\<open>EXPLICIT_ACCESS\<close>: its trustee must be given as a
  valid SID, and the mode must be one that sets, grants or denies. The other modes are
  never passed by the program and are rejected here.
\<close>

definition ace_of :: "(nat \<rightharpoonup> buffer) \<Rightarrow> EXPLICIT_ACCESS \<Rightarrow> ACE option" where
  "ace_of h e =
     (if TrusteeForm (Trustee e) \<noteq> TRUSTEE_IS_SID then None
      else case sid_at h (ptstrName (Trustee e)) of
        None \<Rightarrow> None
      | Some s \<Rightarrow>
          (case grfAccessMode e of
             SET_ACCESS \<Rightarrow>
               Some \<lparr>ace_type = ACCESS_ALLOWED_ACE, ace_sid = s,
                     ace_mask = grfAccessPermissions e, ace_flags = grfInheritance e\<rparr>
           | GRANT_ACCESS \<Rightarrow>
               Some \<lparr>ace_type = ACCESS_ALLOWED_ACE, ace_sid = s,
                     ace_mask = grfAccessPermissions e, ace_flags = grfInheritance e\<rparr>
           | DENY_ACCESS \<Rightarrow>
               Some \<lparr>ace_type = ACCESS_DENIED_ACE, ace_sid = s,
                     ace_mask = grfAccessPermissions e, ace_flags = grfInheritance e\<rparr>
           | _ \<Rightarrow> None))"

fun aces_of :: "(nat \<rightharpoonup> buffer) \<Rightarrow> EXPLICIT_ACCESS list \<Rightarrow> ACE list option" where
  "aces_of h [] = Some []"
| "aces_of h (e # es) =
     (case ace_of h e of
        None \<Rightarrow> None
      | Some a \<Rightarrow> (case aces_of h es of None \<Rightarrow> None | Some as \<Rightarrow> Some (a # as)))"

text \<open>
  \<^verbatim>\<open>SetEntriesInAcl\<close> builds a new ACL in a buffer it allocates (to be released with
  \<^verbatim>\<open>LocalFree\<close>): the first \<open>cCountOfExplicitEntries\<close> entries, in their order, followed
  by the entries of \<open>OldAcl\<close> for other trustees when \<open>OldAcl\<close> is not null. With a
  null \<open>OldAcl\<close> the new list holds the given entries and nothing else.
\<close>

definition SetEntriesInAcl ::
  "nat \<Rightarrow> EXPLICIT_ACCESS list \<Rightarrow> nat option \<Rightarrow> world \<Rightarrow> DWORD \<times> nat option \<times> world" where
  "SetEntriesInAcl cCountOfExplicitEntries pListOfExplicitEntries OldAcl w =
     (let w0 = record_call
                 (Call_SetEntriesInAcl cCountOfExplicitEntries pListOfExplicitEntries OldAcl) w in
      if faults w API_SetEntriesInAcl \<noteq> 0 then (faults w API_SetEntriesInAcl, None, w0)
      else if OldAcl \<noteq> None \<and> acl_at (heap w) OldAcl = None
      then (ERROR_INVALID_PARAMETER, None, w0)
      else case aces_of (heap w) (take cCountOfExplicitEntries pListOfExplicitEntries) of
        None \<Rightarrow> (ERROR_INVALID_PARAMETER, None, w0)
      | Some new \<Rightarrow>
          (let old = (case acl_at (heap w) OldAcl of None \<Rightarrow> [] | Some es \<Rightarrow> es);
               kept = filter (\<lambda>a. ace_sid a \<notin> set (map ace_sid new)) old
           in case allocate (ACL_buffer (new @ kept)) w0 of (a, w1) \<Rightarrow>
                (ERROR_SUCCESS, Some a, w1)))"

definition FreeSid :: "PSID \<Rightarrow> world \<Rightarrow> world" where
  "FreeSid pSid w =
     (let w0 = record_call (Call_FreeSid pSid) w in
      case pSid of PSID_heap a \<Rightarrow> w0\<lparr>heap := (heap w)(a := None)\<rparr> | _ \<Rightarrow> w0)"

definition LocalFree :: "nat option \<Rightarrow> world \<Rightarrow> world" where
  "LocalFree hMem w =
     (let w0 = record_call (Call_LocalFree hMem) w in
      case hMem of Some a \<Rightarrow> w0\<lparr>heap := (heap w)(a := None)\<rparr> | None \<Rightarrow> w0)"

text \<open>
  Modelled from the spec: \<^verbatim>\<open>WindowsCoreFunctions::enablePrivilege\<close> is declared in
  \<^verbatim>\<open>WindowsCoreFunctions.h\<close> and its body is not among the sources. Section 4.3 of the
  specification: the guard "enables the named privilege for the calling context" and
  "disables the privilege again". Its result is ignored by both call sites.
\<close>

definition enablePrivilege :: "string \<Rightarrow> bool \<Rightarrow> world \<Rightarrow> world" where
  "enablePrivilege privilegeName enable w =
     (let w0 = record_call (Call_enablePrivilege privilegeName enable) w in
      if enable then w0\<lparr>privileges := insert privilegeName (privileges w)\<rparr>
      else w0\<lparr>privileges := privileges w - {privilegeName}\<rparr>)"

text \<open>
  \<^verbatim>\<open>QString::fromWCharArray( name )\<close> without a size reads up to the first null code
  unit. (With no terminator in the array the program reads past it; the model stops at
  the end of the given content.)
\<close>

definition fromWCharArray :: "string \<Rightarrow> QString" where
  "fromWCharArray buf = takeWhile (\<lambda>c. c \<noteq> NUL) buf"


section \<open>WindowsFilesystemFunctions\<close>

abbreviation fileOwnerGroup_FUNC_INFO :: string where
  "fileOwnerGroup_FUNC_INFO \<equiv> ''WindowsFilesystemFunctions::fileOwnerGroup''"

abbreviation setFileOwnerGroup_FUNC_INFO :: string where
  "setFileOwnerGroup_FUNC_INFO \<equiv> ''WindowsFilesystemFunctions::setFileOwnerGroup''"

abbreviation setFileOwnerGroupPermissions_FUNC_INFO :: string where
  "setFileOwnerGroupPermissions_FUNC_INFO \<equiv> ''WindowsFilesystemFunctions::setFileOwnerGroupPermissions''"

text \<open>
  \<^verbatim>\<open>fileOwnerGroup\<close> (lines 65 to 92). The argument \<open>name\<close> is the content of the
  uninitialised array \<^verbatim>\<open>wchar_t name[PATH_MAX]\<close> when the function is entered.
  \<^verbatim>\<open>nameSize\<close> and \<^verbatim>\<open>domainLen\<close> are both passed as 0, and the \<^verbatim>\<open>BOOL\<close> that
  \<^verbatim>\<open>LookupAccountSid\<close> returns is compared with \<^verbatim>\<open>ERROR_SUCCESS\<close>, as the source does.
\<close>

definition fileOwnerGroup :: "QString \<Rightarrow> string \<Rightarrow> world \<Rightarrow> QString \<times> world" where
  "fileOwnerGroup filePath name w =
     (case GetNamedSecurityInfo filePath OWNER_SECURITY_INFORMATION w of
        (secInfoResult, ownerSID, securityDescriptor, w1) \<Rightarrow>
          if secInfoResult \<noteq> ERROR_SUCCESS
          then ([], qCritical [Text fileOwnerGroup_FUNC_INFO,
                               Text ''GetSecurityInfo() failed:'', Code secInfoResult] w1)
          else
            (case LookupAccountSid ownerSID name 0 0 w1 of
               (lookupSidResult, name', w2) \<Rightarrow>
                 if lookupSidResult \<noteq> ERROR_SUCCESS
                 then ([], qCritical [Text fileOwnerGroup_FUNC_INFO,
                                      Text ''LookupAccountSid() failed:'', Code lookupSidResult] w2)
                 else (fromWCharArray name', w2)))"

text \<open>\<^verbatim>\<open>setFileOwnerGroup\<close> (lines 96 to 125).\<close>

definition setFileOwnerGroup :: "QString \<Rightarrow> QString \<Rightarrow> world \<Rightarrow> bool \<times> world" where
  "setFileOwnerGroup filePath ownerGroup w =
     (case LookupAccountName ownerGroup None SECURITY_MAX_SID_SIZE MAX_PATH w of
        (found, ownerGroupSID, w1) \<Rightarrow>
          if found = FALSE
          then (False, qCritical [Text ''Could not look up SID structure''] w1)
          else
            (let w2 = enablePrivilege SE_TAKE_OWNERSHIP_NAME True w1 in
             case SetNamedSecurityInfo filePath OWNER_SECURITY_INFORMATION
                    (PSID_local ownerGroupSID) None w2 of
               (result, w3) \<Rightarrow>
                 (let w4 = enablePrivilege SE_TAKE_OWNERSHIP_NAME False w3;
                      w5 = (if result \<noteq> ERROR_SUCCESS
                            then qCritical [Text setFileOwnerGroup_FUNC_INFO,
                                            Text ''SetNamedSecurityInfo() failed:'', Code result] w4
                            else w4)
                  in (result = ERROR_SUCCESS, w5))))"

text \<open>
  The access mask of the owner's entry (lines 156 to 168): starts at 0, and each group
  bit of \<open>permissions\<close> that is set ors in its generic right.
\<close>

definition owner_access_permissions :: "Permissions \<Rightarrow> DWORD" where
  "owner_access_permissions permissions =
     (let m0 = 0;
          m1 = (if permissions AND ReadGroup \<noteq> 0 then m0 OR GENERIC_READ else m0);
          m2 = (if permissions AND WriteGroup \<noteq> 0 then m1 OR GENERIC_WRITE else m1);
          m3 = (if permissions AND ExeGroup \<noteq> 0 then m2 OR GENERIC_EXECUTE else m2)
      in m3)"

text \<open>An \<^verbatim>\<open>EXPLICIT_ACCESS\<close> after \<^verbatim>\<open>ZeroMemory\<close>.\<close>

definition zero_EXPLICIT_ACCESS :: EXPLICIT_ACCESS where
  "zero_EXPLICIT_ACCESS =
     \<lparr>grfAccessPermissions = 0, grfAccessMode = NOT_USED_ACCESS, grfInheritance = 0,
      Trustee = \<lparr>TrusteeForm = TRUSTEE_IS_SID, TrusteeType = TRUSTEE_IS_UNKNOWN,
                 ptstrName = PSID_null\<rparr>\<rparr>"

abbreviation NUM_ACES :: nat where "NUM_ACES \<equiv> 2"

text \<open>The array \<^verbatim>\<open>ea[NUM_ACES]\<close> as lines 150 to 181 fill it.\<close>

definition explicit_access :: "PSID \<Rightarrow> PSID \<Rightarrow> Permissions \<Rightarrow> EXPLICIT_ACCESS list" where
  "explicit_access ownerSID adminSID permissions =
     (let ea = replicate NUM_ACES zero_EXPLICIT_ACCESS;
          ea = ea[0 := (ea ! 0)\<lparr>grfAccessPermissions := owner_access_permissions permissions\<rparr>];
          ea = ea[0 := (ea ! 0)\<lparr>grfAccessMode := SET_ACCESS\<rparr>];
          ea = ea[0 := (ea ! 0)\<lparr>grfInheritance := NO_INHERITANCE\<rparr>];
          ea = ea[0 := (ea ! 0)\<lparr>Trustee := (Trustee (ea ! 0))\<lparr>TrusteeForm := TRUSTEE_IS_SID\<rparr>\<rparr>];
          ea = ea[0 := (ea ! 0)\<lparr>Trustee := (Trustee (ea ! 0))\<lparr>TrusteeType := TRUSTEE_IS_GROUP\<rparr>\<rparr>];
          ea = ea[0 := (ea ! 0)\<lparr>Trustee := (Trustee (ea ! 0))\<lparr>ptstrName := ownerSID\<rparr>\<rparr>];
          ea = ea[1 := (ea ! 1)\<lparr>grfAccessPermissions := GENERIC_ALL\<rparr>];
          ea = ea[1 := (ea ! 1)\<lparr>grfAccessMode := SET_ACCESS\<rparr>];
          ea = ea[1 := (ea ! 1)\<lparr>grfInheritance := NO_INHERITANCE\<rparr>];
          ea = ea[1 := (ea ! 1)\<lparr>Trustee := (Trustee (ea ! 1))\<lparr>TrusteeForm := TRUSTEE_IS_SID\<rparr>\<rparr>];
          ea = ea[1 := (ea ! 1)\<lparr>Trustee := (Trustee (ea ! 1))\<lparr>TrusteeType := TRUSTEE_IS_GROUP\<rparr>\<rparr>];
          ea = ea[1 := (ea ! 1)\<lparr>Trustee := (Trustee (ea ! 1))\<lparr>ptstrName := adminSID\<rparr>\<rparr>]
      in ea)"

text \<open>
  \<^verbatim>\<open>setFileOwnerGroupPermissions\<close> (lines 129 to 203). The source releases \<^verbatim>\<open>adminSID\<close>
  and \<^verbatim>\<open>acl\<close>; it has no call that releases \<^verbatim>\<open>securityDescriptor\<close>.
\<close>

definition setFileOwnerGroupPermissions :: "QString \<Rightarrow> Permissions \<Rightarrow> world \<Rightarrow> bool \<times> world" where
  "setFileOwnerGroupPermissions filePath permissions w =
     (case GetNamedSecurityInfo filePath OWNER_SECURITY_INFORMATION w of
        (secInfoResult, ownerSID, securityDescriptor, w1) \<Rightarrow>
          if secInfoResult \<noteq> ERROR_SUCCESS
          then (False, qCritical [Text setFileOwnerGroupPermissions_FUNC_INFO,
                                  Text ''GetSecurityInfo() failed:'', Code secInfoResult] w1)
          else
            (case AllocateAndInitializeSid SECURITY_NT_AUTHORITY 2
                    [SECURITY_BUILTIN_DOMAIN_RID, DOMAIN_ALIAS_RID_ADMINS, 0, 0, 0, 0, 0, 0] w1 of
               (allocated, adminSID, w2) \<Rightarrow>
                 if allocated = FALSE then (False, w2)
                 else
                   (let ea = explicit_access ownerSID adminSID permissions in
                    case SetEntriesInAcl NUM_ACES ea None w2 of
                      (aclResult, acl, w3) \<Rightarrow>
                        if aclResult \<noteq> ERROR_SUCCESS
                        then (let w4 = qCritical [Text setFileOwnerGroupPermissions_FUNC_INFO,
                                                  Text ''SetEntriesInAcl() failed''] w3;
                                  w5 = FreeSid adminSID w4
                              in (False, w5))
                        else
                          (case SetNamedSecurityInfo filePath DACL_SECURITY_INFORMATION
                                  PSID_null acl w3 of
                             (result, w4) \<Rightarrow>
                               (let w5 = (if result \<noteq> ERROR_ACCESS_DENIED
                                          then qCritical
                                                 [Text setFileOwnerGroupPermissions_FUNC_INFO,
                                                  Text ''SetNamedSecurityInfo() failed:'',
                                                  Code result] w4
                                          else w4);
                                    w6 = FreeSid adminSID w5;
                                    w7 = LocalFree acl w6
                                in (result = ERROR_SUCCESS, w7))))))"


section \<open>A concrete system\<close>

abbreviation alice_sid :: SID where "alice_sid \<equiv> SID 5 [21, 1001]"
abbreviation bob_sid :: SID where "bob_sid \<equiv> SID 5 [21, 1002]"
abbreviation admins_sid :: SID where "admins_sid \<equiv> SID 5 [32, 544]"

abbreviation report :: string where "report \<equiv> ''C:/data/report.xlsx''"

text \<open>
  One file, owned by Alice, with an entry for Bob in its DACL; three accounts; no
  privilege enabled; an empty heap; no faults.
\<close>

definition site :: world where
  "site =
     \<lparr>objects = [report \<mapsto>
         \<lparr>sd_owner = alice_sid,
          sd_dacl = Some [\<lparr>ace_type = ACCESS_ALLOWED_ACE, ace_sid = bob_sid,
                           ace_mask = GENERIC_ALL, ace_flags = 0\<rparr>]\<rparr>],
      accounts =
        [\<lparr>acc_name = ''Alice'', acc_domain = ''PC'', acc_sid = alice_sid\<rparr>,
         \<lparr>acc_name = ''Bob'', acc_domain = ''PC'', acc_sid = bob_sid\<rparr>,
         \<lparr>acc_name = ''Administrators'', acc_domain = ''BUILTIN'', acc_sid = admins_sid\<rparr>],
      privileges = {},
      heap = Map.empty,
      next_addr = 1,
      faults = (\<lambda>_. 0),
      diagnostics = [],
      calls = []\<rparr>"


text \<open>Stale content of the stack array \<^verbatim>\<open>name\<close>: a leftover string and its terminator.\<close>

abbreviation stale :: string where "stale \<equiv> ''junk'' @ NUL # ''xy''"

text \<open>The same system with one entry point failing with the given error code.\<close>

definition failing :: "api \<Rightarrow> DWORD \<Rightarrow> world" where
  "failing f e = site\<lparr>faults := (\<lambda>_. 0)(f := e)\<rparr>"


section \<open>Observations on a run\<close>

text \<open>The calls issued between a state and a later one.\<close>

definition issued :: "world \<Rightarrow> world \<Rightarrow> call list" where
  "issued w w' = drop (length (calls w)) (calls w')"

fun is_security_write :: "call \<Rightarrow> bool" where
  "is_security_write (Call_SetNamedSecurityInfo _ _ _ _) = True"
| "is_security_write _ = False"

text \<open>The buffers that are allocated and not released.\<close>

definition live :: "world \<Rightarrow> nat set" where
  "live w = dom (heap w)"


section \<open>Basic facts\<close>

lemmas backend_defs =
  GetNamedSecurityInfo_def LookupAccountSid_def LookupAccountName_def SetNamedSecurityInfo_def
  AllocateAndInitializeSid_def SetEntriesInAcl_def FreeSid_def LocalFree_def enablePrivilege_def
  record_call_def qCritical_def allocate_def

lemmas concrete_defs =
  site_def failing_def account_of_name_def account_of_sid_def ace_of_def fromWCharArray_def
  issued_def live_def

text \<open>The array handed to \<^verbatim>\<open>SetEntriesInAcl\<close>, written out.\<close>

lemma explicit_access_eq:
  "explicit_access ownerSID adminSID permissions =
     [\<lparr>grfAccessPermissions = owner_access_permissions permissions,
       grfAccessMode = SET_ACCESS, grfInheritance = NO_INHERITANCE,
       Trustee = \<lparr>TrusteeForm = TRUSTEE_IS_SID, TrusteeType = TRUSTEE_IS_GROUP,
                  ptstrName = ownerSID\<rparr>\<rparr>,
      \<lparr>grfAccessPermissions = GENERIC_ALL,
       grfAccessMode = SET_ACCESS, grfInheritance = NO_INHERITANCE,
       Trustee = \<lparr>TrusteeForm = TRUSTEE_IS_SID, TrusteeType = TRUSTEE_IS_GROUP,
                  ptstrName = adminSID\<rparr>\<rparr>]"
  by (simp add: explicit_access_def zero_EXPLICIT_ACCESS_def Let_def numeral_2_eq_2)

text \<open>
  With both sizes 0, \<^verbatim>\<open>LookupAccountSid\<close> cannot succeed: every name needs room for its
  terminator.
\<close>

lemma LookupAccountSid_no_room:
  "fst (LookupAccountSid lpSid name 0 0 w) = FALSE"
  "fst (snd (LookupAccountSid lpSid name 0 0 w)) = name"
  by (simp_all add: LookupAccountSid_def Let_def split: option.splits)

text \<open>
  What \<^verbatim>\<open>fileOwnerGroup\<close> returns: nothing when the descriptor cannot be read, and
  otherwise the string that was in the array \<^verbatim>\<open>name\<close> before the call. The owner of
  the file and the account database have no influence on it.
\<close>

lemma fileOwnerGroup_result:
  "fst (fileOwnerGroup filePath name w) =
     (if faults w API_GetNamedSecurityInfo \<noteq> 0 \<or> objects w filePath = None then []
      else fromWCharArray name)"
  by (simp add: fileOwnerGroup_def backend_defs Let_def split: option.splits)

text \<open>The descriptor buffer is still allocated when \<^verbatim>\<open>fileOwnerGroup\<close> returns.\<close>

lemma fileOwnerGroup_keeps_descriptor:
  assumes "faults w API_GetNamedSecurityInfo = 0" and "objects w filePath = Some sd"
  shows "heap (snd (fileOwnerGroup filePath name w)) (next_addr w) = Some (SD_buffer (sd_owner sd))"
  using assms by (simp add: fileOwnerGroup_def backend_defs Let_def split: option.splits)

lemma word_and_or_distrib: "(a OR b) AND c = (a AND c) OR (b AND (c :: 'a::len word))"
  by (simp add: bit.conj_disj_distrib2)

text \<open>The paths of \<^verbatim>\<open>setFileOwnerGroupPermissions\<close> that return before the DACL write.\<close>

lemma setFileOwnerGroupPermissions_no_descriptor:
  assumes "fst (GetNamedSecurityInfo filePath OWNER_SECURITY_INFORMATION w) \<noteq> ERROR_SUCCESS"
  shows "setFileOwnerGroupPermissions filePath permissions w =
           (False, w\<lparr>calls := calls w @ [Call_GetNamedSecurityInfo filePath OWNER_SECURITY_INFORMATION],
                     diagnostics := diagnostics w @
                       [[Text setFileOwnerGroupPermissions_FUNC_INFO, Text ''GetSecurityInfo() failed:'',
                         Code (fst (GetNamedSecurityInfo filePath OWNER_SECURITY_INFORMATION w))]]\<rparr>)"
  using assms
  by (auto simp add: setFileOwnerGroupPermissions_def GetNamedSecurityInfo_def record_call_def
        qCritical_def allocate_def Let_def split: option.splits)

lemma setFileOwnerGroupPermissions_no_admin_sid:
  assumes "fst (GetNamedSecurityInfo filePath OWNER_SECURITY_INFORMATION w) = ERROR_SUCCESS"
    and "faults w API_AllocateAndInitializeSid \<noteq> 0"
    and "setFileOwnerGroupPermissions filePath permissions w = (r, w')"
  shows "\<not> r \<and> objects w' = objects w
         \<and> issued w w' =
             [Call_GetNamedSecurityInfo filePath OWNER_SECURITY_INFORMATION,
              Call_AllocateAndInitializeSid SECURITY_NT_AUTHORITY 2
                [SECURITY_BUILTIN_DOMAIN_RID, DOMAIN_ALIAS_RID_ADMINS, 0, 0, 0, 0, 0, 0]]"
  using assms
  by (auto simp add: setFileOwnerGroupPermissions_def GetNamedSecurityInfo_def
        AllocateAndInitializeSid_def record_call_def allocate_def issued_def Let_def
        split: option.splits if_splits)

lemma setFileOwnerGroupPermissions_no_acl:
  assumes "fst (GetNamedSecurityInfo filePath OWNER_SECURITY_INFORMATION w) = ERROR_SUCCESS"
    and "faults w API_AllocateAndInitializeSid = 0"
    and "faults w API_SetEntriesInAcl \<noteq> 0"
    and "setFileOwnerGroupPermissions filePath permissions w = (r, w')"
  shows "\<not> r \<and> objects w' = objects w
         \<and> issued w w' =
             [Call_GetNamedSecurityInfo filePath OWNER_SECURITY_INFORMATION,
              Call_AllocateAndInitializeSid SECURITY_NT_AUTHORITY 2
                [SECURITY_BUILTIN_DOMAIN_RID, DOMAIN_ALIAS_RID_ADMINS, 0, 0, 0, 0, 0, 0],
              Call_SetEntriesInAcl NUM_ACES
                (explicit_access (PSID_heap (next_addr w)) (PSID_heap (Suc (next_addr w)))
                   permissions) None,
              Call_FreeSid (PSID_heap (Suc (next_addr w)))]"
  using assms
  by (auto simp add: setFileOwnerGroupPermissions_def GetNamedSecurityInfo_def
        AllocateAndInitializeSid_def SetEntriesInAcl_def FreeSid_def qCritical_def
        record_call_def allocate_def issued_def Let_def
        split: option.splits if_splits)


text \<open>
  When none of the three steps fails, the DACL write is issued: the early returns are
  the only runs without it.
\<close>

lemma setFileOwnerGroupPermissions_reaches_write:
  assumes "fst (GetNamedSecurityInfo filePath OWNER_SECURITY_INFORMATION w) = ERROR_SUCCESS"
    and "faults w API_AllocateAndInitializeSid = 0"
    and "faults w API_SetEntriesInAcl = 0"
  shows "filter is_security_write
           (issued w (snd (setFileOwnerGroupPermissions filePath permissions w))) =
         [Call_SetNamedSecurityInfo filePath DACL_SECURITY_INFORMATION PSID_null
            (Some (Suc (Suc (next_addr w))))]"
  using assms
  by (auto simp add: setFileOwnerGroupPermissions_def explicit_access_eq backend_defs
        ace_of_def issued_def Let_def split: option.splits if_splits)

text \<open>
  Every run of \<^verbatim>\<open>setFileOwnerGroupPermissions\<close> that returns true has logged the line
  of line 196 with the code of success.
\<close>

lemma setFileOwnerGroupPermissions_success_is_logged:
  assumes "setFileOwnerGroupPermissions filePath permissions w = (True, w')"
  shows "diagnostics w' = diagnostics w @
           [[Text setFileOwnerGroupPermissions_FUNC_INFO, Text ''SetNamedSecurityInfo() failed:'',
             Code ERROR_SUCCESS]]"
  using assms
  by (auto simp add: setFileOwnerGroupPermissions_def explicit_access_eq backend_defs
        ace_of_def Let_def split: option.splits if_splits)

text \<open>
  The descriptor buffer is still allocated when \<^verbatim>\<open>setFileOwnerGroupPermissions\<close>
  returns, on each of its exit paths after the retrieval.
\<close>

lemma setFileOwnerGroupPermissions_keeps_descriptor:
  assumes "faults w API_GetNamedSecurityInfo = 0" and "objects w filePath = Some sd"
  shows "heap (snd (setFileOwnerGroupPermissions filePath permissions w)) (next_addr w)
           = Some (SD_buffer (sd_owner sd))"
  using assms
  by (auto simp add: setFileOwnerGroupPermissions_def explicit_access_eq backend_defs
        ace_of_def Let_def split: option.splits if_splits)


section \<open>Ownership round trip and owner lookup\<close>

text \<open>
  Claim C1: for a valid path and a resolvable group name, \<^verbatim>\<open>setFileOwnerGroup\<close> followed
  by \<^verbatim>\<open>fileOwnerGroup\<close> returns the name just set.

  The code does not do this. On the file of Alice the owner is set to Bob with
  success, and the descriptor then names Bob's SID; the following \<^verbatim>\<open>fileOwnerGroup\<close>
  returns the stale content of its name array, not \<open>''Bob''\<close>.
\<close>

theorem owner_round_trip_returns_stale_name:
  "fst (setFileOwnerGroup report ''Bob'' site) = True
   \<and> map_option sd_owner (objects (snd (setFileOwnerGroup report ''Bob'' site)) report)
       = Some bob_sid
   \<and> fst (fileOwnerGroup report stale (snd (setFileOwnerGroup report ''Bob'' site))) = ''junk''"
  by (simp add: fileOwnerGroup_result setFileOwnerGroup_def backend_defs concrete_defs)

text \<open>
  Claim C5: \<^verbatim>\<open>fileOwnerGroup\<close> surfaces the first failure: a failed reverse lookup of the
  owner's name (the buffer-too-small case included) gives the failure indication, and
  a name is returned only when both backend calls succeed.

  The code does not do this. The descriptor of Alice's file is read (the buffer at
  address 1); \<^verbatim>\<open>LookupAccountSid\<close>, given a name size of 0, fails and leaves the array
  as it was; the function logs nothing and returns the stale string.
\<close>

theorem fileOwnerGroup_failed_lookup_returns_stale_name:
  "fst (GetNamedSecurityInfo report OWNER_SECURITY_INFORMATION site) = ERROR_SUCCESS
   \<and> fst (LookupAccountSid (PSID_heap 1) stale 0 0
            (snd (snd (snd (GetNamedSecurityInfo report OWNER_SECURITY_INFORMATION site))))) = FALSE
   \<and> fst (fileOwnerGroup report stale site) = ''junk''
   \<and> diagnostics (snd (fileOwnerGroup report stale site)) = []"
  by (simp add: fileOwnerGroup_def backend_defs concrete_defs)


section \<open>The privilege bracket of setFileOwnerGroup\<close>

text \<open>
  Claim C3: after every call of \<^verbatim>\<open>setFileOwnerGroup\<close>, whether the inner owner-setting
  call succeeds or fails, the take-ownership privilege is disabled; every enable is
  paired with one disable and the privilege is not left enabled past the set-owner
  attempt.

  Whatever the backend answers, the function issues either the name lookup alone and
  leaves the privileges as they were, or the lookup, the enable, the set-owner attempt
  and the disable, in this order, after which the privilege is not enabled. The
  enables and the disables it issues are equal in number, and a privilege that was
  disabled before the call is disabled after it.
\<close>

theorem setFileOwnerGroup_privilege_scope:
  assumes "setFileOwnerGroup filePath ownerGroup w = (r, w')"
  shows "((issued w w' = [Call_LookupAccountName ownerGroup SECURITY_MAX_SID_SIZE MAX_PATH]
            \<and> privileges w' = privileges w)
          \<or> (\<exists>sid. issued w w' =
                [Call_LookupAccountName ownerGroup SECURITY_MAX_SID_SIZE MAX_PATH,
                 Call_enablePrivilege SE_TAKE_OWNERSHIP_NAME True,
                 Call_SetNamedSecurityInfo filePath OWNER_SECURITY_INFORMATION (PSID_local sid) None,
                 Call_enablePrivilege SE_TAKE_OWNERSHIP_NAME False]
              \<and> SE_TAKE_OWNERSHIP_NAME \<notin> privileges w'))
       \<and> count_list (issued w w') (Call_enablePrivilege SE_TAKE_OWNERSHIP_NAME True)
           = count_list (issued w w') (Call_enablePrivilege SE_TAKE_OWNERSHIP_NAME False)
       \<and> (SE_TAKE_OWNERSHIP_NAME \<notin> privileges w \<longrightarrow> SE_TAKE_OWNERSHIP_NAME \<notin> privileges w')"
proof (cases "fst (LookupAccountName ownerGroup None SECURITY_MAX_SID_SIZE MAX_PATH w) = FALSE")
  case True
  with assms have "issued w w' = [Call_LookupAccountName ownerGroup SECURITY_MAX_SID_SIZE MAX_PATH]"
    and "privileges w' = privileges w"
    by (auto simp add: setFileOwnerGroup_def LookupAccountName_def record_call_def qCritical_def
          issued_def Let_def split: option.splits if_splits)
  then show ?thesis by simp
next
  case False
  with assms have "\<exists>sid. issued w w' =
      [Call_LookupAccountName ownerGroup SECURITY_MAX_SID_SIZE MAX_PATH,
       Call_enablePrivilege SE_TAKE_OWNERSHIP_NAME True,
       Call_SetNamedSecurityInfo filePath OWNER_SECURITY_INFORMATION (PSID_local sid) None,
       Call_enablePrivilege SE_TAKE_OWNERSHIP_NAME False]"
    and "SE_TAKE_OWNERSHIP_NAME \<notin> privileges w'"
    by (auto simp add: setFileOwnerGroup_def backend_defs issued_def Let_def
          split: option.splits if_splits)
  then show ?thesis by auto
qed

text \<open>The set-owner attempt is denied: the call fails, and the privilege is disabled.\<close>

theorem setFileOwnerGroup_privilege_scope_witness:
  "\<not> fst (setFileOwnerGroup report ''Bob'' (failing API_SetNamedSecurityInfo ERROR_ACCESS_DENIED))
   \<and> SE_TAKE_OWNERSHIP_NAME \<notin> privileges (failing API_SetNamedSecurityInfo ERROR_ACCESS_DENIED)
   \<and> SE_TAKE_OWNERSHIP_NAME \<notin> privileges
        (snd (setFileOwnerGroup report ''Bob'' (failing API_SetNamedSecurityInfo ERROR_ACCESS_DENIED)))
   \<and> count_list (issued (failing API_SetNamedSecurityInfo ERROR_ACCESS_DENIED)
        (snd (setFileOwnerGroup report ''Bob'' (failing API_SetNamedSecurityInfo ERROR_ACCESS_DENIED))))
        (Call_enablePrivilege SE_TAKE_OWNERSHIP_NAME True)
      = count_list (issued (failing API_SetNamedSecurityInfo ERROR_ACCESS_DENIED)
        (snd (setFileOwnerGroup report ''Bob'' (failing API_SetNamedSecurityInfo ERROR_ACCESS_DENIED))))
        (Call_enablePrivilege SE_TAKE_OWNERSHIP_NAME False)"
proof -
  let ?w = "failing API_SetNamedSecurityInfo ERROR_ACCESS_DENIED"
  have denied: "\<not> fst (setFileOwnerGroup report ''Bob'' ?w)"
    by (simp add: setFileOwnerGroup_def backend_defs concrete_defs)
  then have run: "setFileOwnerGroup report ''Bob'' ?w = (False, snd (setFileOwnerGroup report ''Bob'' ?w))"
    by (simp add: prod_eq_iff)
  have before: "SE_TAKE_OWNERSHIP_NAME \<notin> privileges ?w"
    by (simp add: concrete_defs)
  from setFileOwnerGroup_privilege_scope [OF run] before denied show ?thesis
    by simp
qed

text \<open>
  Claim C4: when the resolution of the group name fails, \<^verbatim>\<open>setFileOwnerGroup\<close> returns
  false, changes no descriptor (the owner that \<^verbatim>\<open>fileOwnerGroup\<close> observes is the same)
  and never enables the privilege.

  The name lookup is the only call issued; the security descriptors and the privileges
  are those of the state before the call, and \<^verbatim>\<open>fileOwnerGroup\<close>, entered with the same
  content of its name array, returns the same for every path.
\<close>

theorem setFileOwnerGroup_unresolved_name:
  assumes "fst (LookupAccountName ownerGroup None SECURITY_MAX_SID_SIZE MAX_PATH w) = FALSE"
    and "setFileOwnerGroup filePath ownerGroup w = (r, w')"
  shows "\<not> r \<and> objects w' = objects w \<and> privileges w' = privileges w
       \<and> issued w w' = [Call_LookupAccountName ownerGroup SECURITY_MAX_SID_SIZE MAX_PATH]
       \<and> fst (fileOwnerGroup p name w') = fst (fileOwnerGroup p name w)"
proof -
  from assms have w': "w' = qCritical [Text ''Could not look up SID structure'']
      (record_call (Call_LookupAccountName ownerGroup SECURITY_MAX_SID_SIZE MAX_PATH) w)"
    and r: "\<not> r"
    by (auto simp add: setFileOwnerGroup_def LookupAccountName_def Let_def
          split: option.splits if_splits)
  from w' have frame: "objects w' = objects w" "privileges w' = privileges w" "faults w' = faults w"
    and new: "issued w w' = [Call_LookupAccountName ownerGroup SECURITY_MAX_SID_SIZE MAX_PATH]"
    by (simp_all add: qCritical_def record_call_def issued_def)
  from frame have "fst (fileOwnerGroup p name w') = fst (fileOwnerGroup p name w)"
    by (simp add: fileOwnerGroup_result)
  with r frame new show ?thesis by simp
qed

theorem setFileOwnerGroup_unresolved_name_witness:
  "fst (LookupAccountName ''NoSuchUser'' None SECURITY_MAX_SID_SIZE MAX_PATH site) = FALSE
   \<and> \<not> fst (setFileOwnerGroup report ''NoSuchUser'' site)
   \<and> objects (snd (setFileOwnerGroup report ''NoSuchUser'' site)) = objects site
   \<and> privileges (snd (setFileOwnerGroup report ''NoSuchUser'' site)) = {}
   \<and> issued site (snd (setFileOwnerGroup report ''NoSuchUser'' site))
       = [Call_LookupAccountName ''NoSuchUser'' SECURITY_MAX_SID_SIZE MAX_PATH]"
proof -
  have unresolved: "fst (LookupAccountName ''NoSuchUser'' None SECURITY_MAX_SID_SIZE MAX_PATH site) = FALSE"
    by (simp add: LookupAccountName_def concrete_defs)
  have none: "privileges site = {}"
    by (simp add: site_def)
  from setFileOwnerGroup_unresolved_name [OF unresolved surjective_pairing] unresolved none
  show ?thesis by simp
qed



section \<open>The access control list of setFileOwnerGroupPermissions\<close>

text \<open>
  Claim C8: for the empty permission set the owner's entry built by
  \<^verbatim>\<open>setFileOwnerGroupPermissions\<close> has the mask 0; read, write and execute each contribute
  their generic right only when present in the input, and nothing else is granted.

  The mask of the first element of the array is \<open>owner_access_permissions\<close>: it is 0
  for the empty set, its three generic bits follow the three group bits of the input,
  and it has no other bit.
\<close>

theorem owner_entry_mask:
  "owner_access_permissions 0 = 0
   \<and> grfAccessPermissions (explicit_access ownerSID adminSID permissions ! 0)
       = owner_access_permissions permissions
   \<and> owner_access_permissions permissions AND GENERIC_READ
       = (if permissions AND ReadGroup \<noteq> 0 then GENERIC_READ else 0)
   \<and> owner_access_permissions permissions AND GENERIC_WRITE
       = (if permissions AND WriteGroup \<noteq> 0 then GENERIC_WRITE else 0)
   \<and> owner_access_permissions permissions AND GENERIC_EXECUTE
       = (if permissions AND ExeGroup \<noteq> 0 then GENERIC_EXECUTE else 0)
   \<and> owner_access_permissions permissions
         AND NOT (GENERIC_READ OR GENERIC_WRITE OR GENERIC_EXECUTE) = 0"
proof -
  have zero: "owner_access_permissions 0 = 0"
    by (simp add: owner_access_permissions_def)
  have first: "grfAccessPermissions (explicit_access ownerSID adminSID permissions ! 0)
      = owner_access_permissions permissions"
    by (simp add: explicit_access_eq)
  have bits: "owner_access_permissions permissions AND GENERIC_READ
        = (if permissions AND ReadGroup \<noteq> 0 then GENERIC_READ else 0)"
      "owner_access_permissions permissions AND GENERIC_WRITE
        = (if permissions AND WriteGroup \<noteq> 0 then GENERIC_WRITE else 0)"
      "owner_access_permissions permissions AND GENERIC_EXECUTE
        = (if permissions AND ExeGroup \<noteq> 0 then GENERIC_EXECUTE else 0)"
    by (simp_all add: owner_access_permissions_def Let_def word_and_or_distrib)
  have rest: "owner_access_permissions permissions
      AND NOT (GENERIC_READ OR GENERIC_WRITE OR GENERIC_EXECUTE) = 0"
    by (simp add: owner_access_permissions_def Let_def word_and_or_distrib)
  from zero first bits rest show ?thesis by simp
qed

text \<open>On Alice's file, the empty permission set gives her an entry with mask 0.\<close>

theorem owner_entry_mask_witness:
  "owner_access_permissions 0 = 0
   \<and> map_option sd_dacl (objects (snd (setFileOwnerGroupPermissions report 0 site)) report) =
       Some (Some [\<lparr>ace_type = ACCESS_ALLOWED_ACE, ace_sid = alice_sid,
                    ace_mask = 0, ace_flags = NO_INHERITANCE\<rparr>,
                   \<lparr>ace_type = ACCESS_ALLOWED_ACE, ace_sid = admins_sid,
                    ace_mask = GENERIC_ALL, ace_flags = NO_INHERITANCE\<rparr>])"
proof -
  have "map_option sd_dacl (objects (snd (setFileOwnerGroupPermissions report 0 site)) report) =
       Some (Some [\<lparr>ace_type = ACCESS_ALLOWED_ACE, ace_sid = alice_sid,
                    ace_mask = owner_access_permissions 0, ace_flags = NO_INHERITANCE\<rparr>,
                   \<lparr>ace_type = ACCESS_ALLOWED_ACE, ace_sid = admins_sid,
                    ace_mask = GENERIC_ALL, ace_flags = NO_INHERITANCE\<rparr>])"
    by (simp add: setFileOwnerGroupPermissions_def explicit_access_eq backend_defs concrete_defs)
  with owner_entry_mask [of PSID_null PSID_null 0] show ?thesis by simp
qed

text \<open>
  Claim C2: for every permission set, the ACL that \<^verbatim>\<open>setFileOwnerGroupPermissions\<close>
  constructs and applies has exactly two grant entries in fixed order, the entry of
  the path's current owner and then full control for the local administrators group,
  and it replaces the prior DACL instead of merging with it.

  For every path, permission set and state: when the descriptor can be read and the
  administrators SID and the ACL can be built, the function issues the six calls
  below, that is, it builds the list from the two-element array with a null old ACL
  and hands it to the DACL write, and it returns true exactly when that write is not
  refused. Whenever it returns true, the DACL of the file is the two-entry list,
  whatever it was before; the owner is the one the descriptor named before the call.
  No run leaves any other change in the security descriptors.
\<close>

theorem setFileOwnerGroupPermissions_applied_acl:
  assumes "setFileOwnerGroupPermissions filePath permissions w = (r, w')"
  shows "(faults w API_GetNamedSecurityInfo = 0 \<and> objects w filePath \<noteq> None
            \<and> faults w API_AllocateAndInitializeSid = 0 \<and> faults w API_SetEntriesInAcl = 0
          \<longrightarrow> r = (faults w API_SetNamedSecurityInfo = 0)
              \<and> issued w w' =
                  [Call_GetNamedSecurityInfo filePath OWNER_SECURITY_INFORMATION,
                   Call_AllocateAndInitializeSid SECURITY_NT_AUTHORITY 2
                     [SECURITY_BUILTIN_DOMAIN_RID, DOMAIN_ALIAS_RID_ADMINS, 0, 0, 0, 0, 0, 0],
                   Call_SetEntriesInAcl NUM_ACES
                     (explicit_access (PSID_heap (next_addr w)) (PSID_heap (Suc (next_addr w)))
                        permissions) None,
                   Call_SetNamedSecurityInfo filePath DACL_SECURITY_INFORMATION PSID_null
                     (Some (Suc (Suc (next_addr w)))),
                   Call_FreeSid (PSID_heap (Suc (next_addr w))),
                   Call_LocalFree (Some (Suc (Suc (next_addr w))))])
       \<and> (r \<longrightarrow> (\<exists>sd. objects w filePath = Some sd \<and>
              objects w' = (objects w)(filePath \<mapsto> sd\<lparr>sd_dacl := Some
                [\<lparr>ace_type = ACCESS_ALLOWED_ACE, ace_sid = sd_owner sd,
                  ace_mask = owner_access_permissions permissions, ace_flags = NO_INHERITANCE\<rparr>,
                 \<lparr>ace_type = ACCESS_ALLOWED_ACE,
                  ace_sid = SID SECURITY_NT_AUTHORITY
                              [SECURITY_BUILTIN_DOMAIN_RID, DOMAIN_ALIAS_RID_ADMINS],
                  ace_mask = GENERIC_ALL, ace_flags = NO_INHERITANCE\<rparr>]\<rparr>)))
       \<and> (\<not> r \<longrightarrow> objects w' = objects w)"
proof (intro conjI impI)
  assume reach: "faults w API_GetNamedSecurityInfo = 0 \<and> objects w filePath \<noteq> None
      \<and> faults w API_AllocateAndInitializeSid = 0 \<and> faults w API_SetEntriesInAcl = 0"
  with assms show "r = (faults w API_SetNamedSecurityInfo = 0)"
    by (auto simp add: setFileOwnerGroupPermissions_def explicit_access_eq backend_defs
          ace_of_def Let_def split: option.splits if_splits)
  from reach assms show "issued w w' =
      [Call_GetNamedSecurityInfo filePath OWNER_SECURITY_INFORMATION,
       Call_AllocateAndInitializeSid SECURITY_NT_AUTHORITY 2
         [SECURITY_BUILTIN_DOMAIN_RID, DOMAIN_ALIAS_RID_ADMINS, 0, 0, 0, 0, 0, 0],
       Call_SetEntriesInAcl NUM_ACES
         (explicit_access (PSID_heap (next_addr w)) (PSID_heap (Suc (next_addr w)))
            permissions) None,
       Call_SetNamedSecurityInfo filePath DACL_SECURITY_INFORMATION PSID_null
         (Some (Suc (Suc (next_addr w)))),
       Call_FreeSid (PSID_heap (Suc (next_addr w))),
       Call_LocalFree (Some (Suc (Suc (next_addr w))))]"
    by (auto simp add: setFileOwnerGroupPermissions_def explicit_access_eq backend_defs
          ace_of_def issued_def Let_def split: option.splits if_splits)
next
  assume r
  with assms show "\<exists>sd. objects w filePath = Some sd \<and>
      objects w' = (objects w)(filePath \<mapsto> sd\<lparr>sd_dacl := Some
        [\<lparr>ace_type = ACCESS_ALLOWED_ACE, ace_sid = sd_owner sd,
          ace_mask = owner_access_permissions permissions, ace_flags = NO_INHERITANCE\<rparr>,
         \<lparr>ace_type = ACCESS_ALLOWED_ACE,
          ace_sid = SID SECURITY_NT_AUTHORITY
                      [SECURITY_BUILTIN_DOMAIN_RID, DOMAIN_ALIAS_RID_ADMINS],
          ace_mask = GENERIC_ALL, ace_flags = NO_INHERITANCE\<rparr>]\<rparr>)"
    by (auto simp add: setFileOwnerGroupPermissions_def explicit_access_eq backend_defs
          ace_of_def Let_def split: option.splits if_splits)
next
  assume "\<not> r"
  with assms show "objects w' = objects w"
    by (auto simp add: setFileOwnerGroupPermissions_def explicit_access_eq backend_defs
          ace_of_def Let_def split: option.splits if_splits)
qed

text \<open>
  The scenario of the specification: Alice's file, permission set \<open>{read}\<close>, and the
  same file with the empty permission set. Both runs return true and leave the
  two-entry list; the entry for Bob that the DACL held before is gone.
\<close>

theorem setFileOwnerGroupPermissions_applied_acl_witness:
  "fst (setFileOwnerGroupPermissions report ReadGroup site)
   \<and> objects (snd (setFileOwnerGroupPermissions report ReadGroup site)) report =
       Some \<lparr>sd_owner = alice_sid,
             sd_dacl = Some [\<lparr>ace_type = ACCESS_ALLOWED_ACE, ace_sid = alice_sid,
                              ace_mask = GENERIC_READ, ace_flags = NO_INHERITANCE\<rparr>,
                             \<lparr>ace_type = ACCESS_ALLOWED_ACE, ace_sid = admins_sid,
                              ace_mask = GENERIC_ALL, ace_flags = NO_INHERITANCE\<rparr>]\<rparr>
   \<and> fst (setFileOwnerGroupPermissions report 0 site)
   \<and> objects (snd (setFileOwnerGroupPermissions report 0 site)) report =
       Some \<lparr>sd_owner = alice_sid,
             sd_dacl = Some [\<lparr>ace_type = ACCESS_ALLOWED_ACE, ace_sid = alice_sid,
                              ace_mask = 0, ace_flags = NO_INHERITANCE\<rparr>,
                             \<lparr>ace_type = ACCESS_ALLOWED_ACE, ace_sid = admins_sid,
                              ace_mask = GENERIC_ALL, ace_flags = NO_INHERITANCE\<rparr>]\<rparr>"
proof -
  have quiet: "faults site API_GetNamedSecurityInfo = 0" "faults site API_AllocateAndInitializeSid = 0"
      "faults site API_SetEntriesInAcl = 0" "faults site API_SetNamedSecurityInfo = 0"
    by (simp_all add: site_def)
  have before: "objects site report =
      Some \<lparr>sd_owner = alice_sid,
            sd_dacl = Some [\<lparr>ace_type = ACCESS_ALLOWED_ACE, ace_sid = bob_sid,
                             ace_mask = GENERIC_ALL, ace_flags = 0\<rparr>]\<rparr>"
    by (simp add: site_def)
  have masks: "owner_access_permissions ReadGroup = GENERIC_READ" "owner_access_permissions 0 = 0"
    by (simp_all add: owner_access_permissions_def)
  from setFileOwnerGroupPermissions_applied_acl
      [where filePath = report and permissions = ReadGroup and w = site, OF surjective_pairing]
    quiet before masks
  have read: "fst (setFileOwnerGroupPermissions report ReadGroup site)
     \<and> objects (snd (setFileOwnerGroupPermissions report ReadGroup site)) report =
       Some \<lparr>sd_owner = alice_sid,
             sd_dacl = Some [\<lparr>ace_type = ACCESS_ALLOWED_ACE, ace_sid = alice_sid,
                              ace_mask = GENERIC_READ, ace_flags = NO_INHERITANCE\<rparr>,
                             \<lparr>ace_type = ACCESS_ALLOWED_ACE, ace_sid = admins_sid,
                              ace_mask = GENERIC_ALL, ace_flags = NO_INHERITANCE\<rparr>]\<rparr>"
    by auto
  from setFileOwnerGroupPermissions_applied_acl
      [where filePath = report and permissions = 0 and w = site, OF surjective_pairing]
    quiet before masks
  have empty: "fst (setFileOwnerGroupPermissions report 0 site)
     \<and> objects (snd (setFileOwnerGroupPermissions report 0 site)) report =
       Some \<lparr>sd_owner = alice_sid,
             sd_dacl = Some [\<lparr>ace_type = ACCESS_ALLOWED_ACE, ace_sid = alice_sid,
                              ace_mask = 0, ace_flags = NO_INHERITANCE\<rparr>,
                             \<lparr>ace_type = ACCESS_ALLOWED_ACE, ace_sid = admins_sid,
                              ace_mask = GENERIC_ALL, ace_flags = NO_INHERITANCE\<rparr>]\<rparr>"
    by auto
  from read empty show ?thesis by simp
qed

text \<open>
  Claim C9: \<^verbatim>\<open>setFileOwnerGroupPermissions\<close> changes only the DACL of the path's security
  descriptor: the owner is unchanged, and \<^verbatim>\<open>fileOwnerGroup\<close> returns the same before and
  after.

  For every path \<open>p\<close> the owner recorded in the descriptor (if there is one) is the
  same after the call, on every exit path of the function, and \<^verbatim>\<open>fileOwnerGroup\<close>,
  entered with the same content of its name array, gives the same result in both
  states.
\<close>

theorem setFileOwnerGroupPermissions_owner_unchanged:
  "map_option sd_owner (objects (snd (setFileOwnerGroupPermissions filePath permissions w)) p)
     = map_option sd_owner (objects w p)
   \<and> fst (fileOwnerGroup p name (snd (setFileOwnerGroupPermissions filePath permissions w)))
     = fst (fileOwnerGroup p name w)"
  by (auto simp add: fileOwnerGroup_result setFileOwnerGroupPermissions_def explicit_access_eq
        backend_defs ace_of_def Let_def split: option.splits if_splits)

theorem setFileOwnerGroupPermissions_owner_unchanged_witness:
  "map_option sd_owner (objects (snd (setFileOwnerGroupPermissions report ReadGroup site)) report)
     = Some alice_sid"
  using setFileOwnerGroupPermissions_owner_unchanged [of report ReadGroup site report stale]
  by (simp add: site_def)

text \<open>
  Claim C10: if a step of \<^verbatim>\<open>setFileOwnerGroupPermissions\<close> before the DACL write fails
  (reading the descriptor, building the administrators SID, building the ACL), the
  function returns false without issuing the DACL write, and the security descriptor
  of the path is unchanged.
\<close>

theorem setFileOwnerGroupPermissions_early_failure:
  assumes "fst (GetNamedSecurityInfo filePath OWNER_SECURITY_INFORMATION w) \<noteq> ERROR_SUCCESS
           \<or> faults w API_AllocateAndInitializeSid \<noteq> 0
           \<or> faults w API_SetEntriesInAcl \<noteq> 0"
    and "setFileOwnerGroupPermissions filePath permissions w = (r, w')"
  shows "\<not> r \<and> objects w' = objects w \<and> filter is_security_write (issued w w') = []"
proof -
  consider
      (descriptor) "fst (GetNamedSecurityInfo filePath OWNER_SECURITY_INFORMATION w) \<noteq> ERROR_SUCCESS"
    | (admin_sid) "fst (GetNamedSecurityInfo filePath OWNER_SECURITY_INFORMATION w) = ERROR_SUCCESS"
        "faults w API_AllocateAndInitializeSid \<noteq> 0"
    | (acl) "fst (GetNamedSecurityInfo filePath OWNER_SECURITY_INFORMATION w) = ERROR_SUCCESS"
        "faults w API_AllocateAndInitializeSid = 0" "faults w API_SetEntriesInAcl \<noteq> 0"
    using assms(1) by blast
  then show ?thesis
  proof cases
    case descriptor
    from setFileOwnerGroupPermissions_no_descriptor [OF descriptor, of permissions] assms(2)
    show ?thesis by (auto simp add: issued_def)
  next
    case admin_sid
    from setFileOwnerGroupPermissions_no_admin_sid [OF admin_sid assms(2)]
    show ?thesis by simp
  next
    case acl
    from setFileOwnerGroupPermissions_no_acl [OF acl assms(2)]
    show ?thesis by simp
  qed
qed

text \<open>The ACL cannot be built (error 8, not enough memory): Alice's file keeps its DACL.\<close>

theorem setFileOwnerGroupPermissions_early_failure_witness:
  "faults (failing API_SetEntriesInAcl 8) API_SetEntriesInAcl \<noteq> 0
   \<and> \<not> fst (setFileOwnerGroupPermissions report ReadGroup (failing API_SetEntriesInAcl 8))
   \<and> objects (snd (setFileOwnerGroupPermissions report ReadGroup (failing API_SetEntriesInAcl 8)))
       = objects site
   \<and> filter is_security_write
       (issued (failing API_SetEntriesInAcl 8)
          (snd (setFileOwnerGroupPermissions report ReadGroup (failing API_SetEntriesInAcl 8)))) = []"
proof -
  have fault: "faults (failing API_SetEntriesInAcl 8) API_SetEntriesInAcl \<noteq> 0"
    by (simp add: failing_def)
  have same: "objects (failing API_SetEntriesInAcl 8) = objects site"
    by (simp add: failing_def)
  from fault have "fst (GetNamedSecurityInfo report OWNER_SECURITY_INFORMATION (failing API_SetEntriesInAcl 8)) \<noteq> ERROR_SUCCESS
           \<or> faults (failing API_SetEntriesInAcl 8) API_AllocateAndInitializeSid \<noteq> 0
           \<or> faults (failing API_SetEntriesInAcl 8) API_SetEntriesInAcl \<noteq> 0"
    by simp
  from setFileOwnerGroupPermissions_early_failure [OF this surjective_pairing] fault same
  show ?thesis by simp
qed


section \<open>Diagnostics and buffers\<close>

text \<open>
  Claim C6: in \<^verbatim>\<open>setFileOwnerGroupPermissions\<close> a diagnostic failure line for the DACL
  write is emitted if and only if that call fails with an error other than permission
  denial.

  The code does not do this. On Alice's file the DACL write succeeds and the function
  returns true, and the line "SetNamedSecurityInfo() failed:" with code 0 is logged.
\<close>

theorem setFileOwnerGroupPermissions_logs_failure_on_success:
  "fst (setFileOwnerGroupPermissions report ReadGroup site) = True
   \<and> diagnostics site = []
   \<and> diagnostics (snd (setFileOwnerGroupPermissions report ReadGroup site)) =
       [[Text setFileOwnerGroupPermissions_FUNC_INFO, Text ''SetNamedSecurityInfo() failed:'',
         Code ERROR_SUCCESS]]"
  by (simp add: setFileOwnerGroupPermissions_def explicit_access_eq backend_defs concrete_defs)

text \<open>
  Claim C7: every buffer allocated during an operation (security descriptor,
  administrators SID, constructed ACL) is released exactly once on every exit path; no
  buffer survives the call that allocated it.

  The code does not do this. Starting from an empty heap, the descriptor buffer (at
  address 1) is still allocated when \<^verbatim>\<open>fileOwnerGroup\<close> returns, and when
  \<^verbatim>\<open>setFileOwnerGroupPermissions\<close> returns; the latter has released the administrators
  SID (address 2) and the ACL (address 3), and neither function has issued a release
  of address 1.
\<close>

theorem security_descriptor_buffer_not_released:
  "live site = {}
   \<and> heap (snd (fileOwnerGroup report stale site)) 1 = Some (SD_buffer alice_sid)
   \<and> live (snd (fileOwnerGroup report stale site)) = {1}
   \<and> filter (\<lambda>c. c = Call_LocalFree (Some 1)) (calls (snd (fileOwnerGroup report stale site))) = []
   \<and> heap (snd (setFileOwnerGroupPermissions report ReadGroup site)) 1 = Some (SD_buffer alice_sid)
   \<and> live (snd (setFileOwnerGroupPermissions report ReadGroup site)) = {1}
   \<and> filter (\<lambda>c. c = Call_LocalFree (Some 1))
        (calls (snd (setFileOwnerGroupPermissions report ReadGroup site))) = []"
  by (simp add: fileOwnerGroup_def setFileOwnerGroupPermissions_def explicit_access_eq
        backend_defs concrete_defs dom_def)


end
